theory Spec2Isabelle
  imports Main "HOL-Library.Sublist"
begin

section \<open>Python values and exceptions\<close>

text \<open>
  The values that flow through \<^verbatim>\<open>function_app.py\<close>: the entries of the MSAL result
  dictionary and the token taken from it are \<^verbatim>\<open>None\<close>, a string or an integer.
\<close>

datatype pyval = PNone | PStr string | PInt int

text \<open>
  A Python string is represented by its UTF-8 bytes; a lone surrogate, which UTF-8
  proper cannot encode, by the three bytes \<^verbatim>\<open>ED A0..BF xx\<close> that the
  \<^verbatim>\<open>surrogatepass\<close> handler writes for it. \<open>has_lone_surrogate\<close> holds of the
  strings for which \<^verbatim>\<open>encode('utf-8')\<close> raises \<^verbatim>\<open>UnicodeEncodeError\<close>.
\<close>

fun has_lone_surrogate :: "string \<Rightarrow> bool" where
  "has_lone_surrogate (a # b # cs) =
     ((of_char a = (0xED :: nat) \<and> 0xA0 \<le> (of_char b :: nat) \<and> (of_char b :: nat) \<le> 0xBF)
      \<or> has_lone_surrogate (b # cs))"
| "has_lone_surrogate _ = False"

text \<open>Python's \<^verbatim>\<open>str()\<close> on these values (decimal digits for an integer).\<close>

definition digit_char :: "nat \<Rightarrow> char" where
  "digit_char d = char_of (48 + d)"

fun nat_str :: "nat \<Rightarrow> string" where
  "nat_str n = (if n < 10 then [digit_char n] else nat_str (n div 10) @ [digit_char (n mod 10)])"

declare nat_str.simps [simp del]

definition int_str :: "int \<Rightarrow> string" where
  "int_str i = (if i < 0 then CHR ''-'' # nat_str (nat (- i)) else nat_str (nat i))"

fun py_str :: "pyval \<Rightarrow> string" where
  "py_str PNone = ''None''"
| "py_str (PStr s) = s"
| "py_str (PInt i) = int_str i"

text \<open>Python truthiness, as used by \<^verbatim>\<open>and\<close>, \<^verbatim>\<open>or\<close>, \<^verbatim>\<open>not\<close> and \<^verbatim>\<open>if\<close>.\<close>

fun py_truthy :: "pyval \<Rightarrow> bool" where
  "py_truthy PNone = False"
| "py_truthy (PStr s) = (s \<noteq> [])"
| "py_truthy (PInt i) = (i \<noteq> 0)"

text \<open>
  An optional string (\<^verbatim>\<open>os.getenv\<close>, \<^verbatim>\<open>req.params.get\<close>) is \<^verbatim>\<open>None\<close> or a
  string; \<open>truthy\<close> is its truth value, \<open>py_or\<close> is \<^verbatim>\<open>a or b\<close>, and \<open>fmt\<close> is what an
  f-string writes for it.
\<close>

fun truthy :: "string option \<Rightarrow> bool" where
  "truthy None = False"
| "truthy (Some s) = (s \<noteq> [])"

definition py_or :: "string option \<Rightarrow> string option \<Rightarrow> string option" where
  "py_or a b = (if truthy a then a else b)"

fun fmt :: "string option \<Rightarrow> string" where
  "fmt None = ''None''"
| "fmt (Some s) = s"

text \<open>
  Exception classes that occur in the program or can reach it from the libraries it
  calls. The two \<^verbatim>\<open>except\<close> clauses that name a class are decided by
  \<open>isinstance_RequestException\<close> and \<open>isinstance_ValueError\<close>; every class here
  derives from \<^verbatim>\<open>Exception\<close>. \<open>JSONDecodeError\<close> is the one of \<^verbatim>\<open>requests\<close>, which
  derives from both \<^verbatim>\<open>RequestException\<close> and \<^verbatim>\<open>ValueError\<close>;
  \<^verbatim>\<open>UnicodeEncodeError\<close> derives from \<^verbatim>\<open>ValueError\<close>. \<open>OSError\<close> is what
  \<^verbatim>\<open>requests\<close> raises, unwrapped, when the CA bundle it is configured with does not
  exist.
\<close>

datatype exn_class =
    RuntimeError | ValueError | UnicodeEncodeError | TypeError | OSError
  | RequestException | HTTPError | ConnectionError | Timeout | JSONDecodeError

fun isinstance_RequestException :: "exn_class \<Rightarrow> bool" where
  "isinstance_RequestException RequestException = True"
| "isinstance_RequestException HTTPError = True"
| "isinstance_RequestException ConnectionError = True"
| "isinstance_RequestException Timeout = True"
| "isinstance_RequestException JSONDecodeError = True"
| "isinstance_RequestException _ = False"

fun isinstance_ValueError :: "exn_class \<Rightarrow> bool" where
  "isinstance_ValueError ValueError = True"
| "isinstance_ValueError UnicodeEncodeError = True"
| "isinstance_ValueError JSONDecodeError = True"
| "isinstance_ValueError _ = False"

text \<open>
  An exception object: its class, \<^verbatim>\<open>str(e)\<close>, and its \<^verbatim>\<open>response\<close> attribute as
  \<^verbatim>\<open>getattr(e, 'response', None)\<close> reads it.
\<close>

datatype 'r py_exn = Exn (exn_class: exn_class) (exn_str: string) (exn_response: "'r option")

section \<open>Module-level configuration\<close>

record globals =
  TENANT_ID :: "string option"
  CLIENT_ID :: "string option"
  CLIENT_SECRET :: "string option"
  ONELAKE_SCOPE :: string
  ONELAKE_TEST_ENDPOINT :: "string option"
  AUTHORITY :: "string option"
  BaseURL :: string

text \<open>The assignments of lines 12 to 19, from the process environment \<open>getenv\<close>.\<close>

definition module_globals :: "(string \<rightharpoonup> string) \<Rightarrow> globals" where
  "module_globals getenv =
     (let tenant_id = py_or (getenv ''TENANT_ID'') (getenv ''AZURE_TENANT_ID'') in
      \<lparr> TENANT_ID = tenant_id,
        CLIENT_ID = py_or (getenv ''CLIENT_ID'') (getenv ''AZURE_CLIENT_ID''),
        CLIENT_SECRET = py_or (getenv ''CLIENT_SECRET'') (getenv ''AZURE_CLIENT_SECRET''),
        ONELAKE_SCOPE = (case getenv ''ONELAKE_SCOPE'' of
                           None \<Rightarrow> ''https://storage.azure.com/.default'' | Some s \<Rightarrow> s),
        ONELAKE_TEST_ENDPOINT = getenv ''ONELAKE_TEST_ENDPOINT'',
        AUTHORITY = (if truthy tenant_id
                     then Some (''https://login.microsoftonline.com/'' @ fmt tenant_id)
                     else None),
        BaseURL = ''https://onelake.table.fabric.microsoft.com/'' \<rparr>)"

section \<open>The outside world\<close>

text \<open>
  The response object of \<^verbatim>\<open>requests\<close>: its status code, reason phrase and URL, its
  \<^verbatim>\<open>text\<close>, and what a call of \<^verbatim>\<open>json()\<close> does (it raises an exception of some class
  with some message, or it returns the parsed value, of a type \<open>'j\<close> left open).
\<close>

record 'j response =
  up_status_code :: int
  up_reason :: string
  up_url :: string
  up_text :: string
  up_json :: "(exn_class \<times> string) + 'j"

type_synonym 'j exn = "'j response py_exn"

text \<open>The arguments of \<^verbatim>\<open>msal.ConfidentialClientApplication\<close>.\<close>

record msal_app =
  client_id :: "string option"
  authority :: "string option"
  client_credential :: "string option"

type_synonym dict = "string \<rightharpoonup> pyval"

text \<open>
  Everything the program observes of its libraries and of the network is a field of
  \<open>world\<close>: whether constructing the MSAL application raises, what the
  client-credentials request returns or raises, what \<^verbatim>\<open>requests.get\<close> returns or
  raises for a URL, headers and timeout, whether \<^verbatim>\<open>raise_for_status\<close> raises on a
  response, and the two printers \<^verbatim>\<open>json.dumps\<close> and \<^verbatim>\<open>str\<close> of a dictionary.
\<close>

record 'j world =
  ConfidentialClientApplication :: "msal_app \<Rightarrow> 'j exn option"
  acquire_token_for_client :: "msal_app \<Rightarrow> string list \<Rightarrow> 'j exn + dict"
  requests_get :: "string \<Rightarrow> (string \<times> string) list \<Rightarrow> nat \<Rightarrow> 'j exn + 'j response"
  raise_for_status :: "'j response \<Rightarrow> 'j exn option"
  json_dumps :: "'j \<Rightarrow> string"
  str_dict :: "dict \<Rightarrow> string"

text \<open>What a run leaves behind, in order: log lines and calls that leave the process.\<close>

datatype event =
    LogInfo string
  | LogWarning string
  | LogError string
  | MsalApp msal_app
  | MsalTokenRequest msal_app "string list"
  | HttpGet string "(string \<times> string) list" nat

fun requested_scopes :: "event list \<Rightarrow> string list list" where
  "requested_scopes [] = []"
| "requested_scopes (MsalTokenRequest _ scopes # evs) = scopes # requested_scopes evs"
| "requested_scopes (_ # evs) = requested_scopes evs"

fun upstream_calls :: "event list \<Rightarrow> string list" where
  "upstream_calls [] = []"
| "upstream_calls (HttpGet url _ _ # evs) = url # upstream_calls evs"
| "upstream_calls (_ # evs) = upstream_calls evs"

section \<open>Token acquisition\<close>

text \<open>
  \<^verbatim>\<open>acquire_onelake_token\<close>, lines 21 to 37. The result is the raised exception or the
  returned value, with the events of the call.
\<close>

definition acquire_onelake_token :: "globals \<Rightarrow> 'j world \<Rightarrow> ('j exn + pyval) \<times> event list" where
  "acquire_onelake_token g w =
     (if \<not> (truthy (TENANT_ID g) \<and> truthy (CLIENT_ID g) \<and> truthy (CLIENT_SECRET g))
      then (Inl (Exn RuntimeError
              ''TENANT_ID, CLIENT_ID and CLIENT_SECRET must be set in environment (local.settings.json for local dev).''
              None), [])
      else
        let app = \<lparr> client_id = CLIENT_ID g, authority = AUTHORITY g,
                    client_credential = CLIENT_SECRET g \<rparr> in
        case ConfidentialClientApplication w app of
          Some e \<Rightarrow> (Inl e, [MsalApp app])
        | None \<Rightarrow>
           (let scopes = [''https://storage.azure.com/.default''] in
            case acquire_token_for_client w app scopes of
              Inl e \<Rightarrow> (Inl e, [MsalApp app, MsalTokenRequest app scopes])
            | Inr result \<Rightarrow>
               (case result ''access_token'' of
                  Some access_token \<Rightarrow>
                    (Inr access_token, [MsalApp app, MsalTokenRequest app scopes])
                | None \<Rightarrow>
                    (Inl (Exn RuntimeError
                       (''Failed to acquire token: '' @
                        (case result ''error_description'' of
                           None \<Rightarrow> str_dict w result
                         | Some d \<Rightarrow> if py_truthy d then py_str d else str_dict w result))
                       None),
                     [MsalApp app, MsalTokenRequest app scopes,
                      LogError (''MSAL token acquisition failed: '' @ str_dict w result)]))))"

section \<open>The HTTP-triggered functions\<close>

text \<open>
  The request offers its query parameters (\<^verbatim>\<open>req.params.get\<close> gives \<^verbatim>\<open>None\<close> for a
  missing key). A response records the arguments given to \<^verbatim>\<open>func.HttpResponse\<close>:
  the body, \<^verbatim>\<open>status_code\<close>, and \<^verbatim>\<open>mimetype\<close> when one is passed.
\<close>

record http_request =
  params :: "string \<rightharpoonup> string"

record http_response =
  body :: string
  status_code :: int
  mimetype :: "string option"

text \<open>
  The constructor \<^verbatim>\<open>func.HttpResponse\<close> belongs to the Azure Functions library. It
  encodes a string body as UTF-8, so it raises \<^verbatim>\<open>UnicodeEncodeError\<close> for a body with
  a lone surrogate (the message is shortened) and returns the response otherwise.
\<close>

definition HttpResponse :: "string \<Rightarrow> int \<Rightarrow> string option \<Rightarrow> 'r py_exn + http_response" where
  "HttpResponse b sc mt =
     (if has_lone_surrogate b
      then Inl (Exn UnicodeEncodeError ''surrogates not allowed'' None)
      else Inr \<lparr> body = b, status_code = sc, mimetype = mt \<rparr>)"

text \<open>
  Each function below is one function of the source, statement by statement. The
  result is the response returned, or the exception that leaves the function, with the
  events of the run. \<^verbatim>\<open>except Exception\<close> around the token acquisition catches every
  exception of the model; the \<^verbatim>\<open>except\<close> clause around the GET and
  \<^verbatim>\<open>raise_for_status\<close> catches the classes of \<open>isinstance_RequestException\<close>. Inside
  it, the attempt to answer with the attached response is the inner \<^verbatim>\<open>try\<close>, whose
  \<^verbatim>\<open>except Exception: pass\<close> lets a failed attempt fall through to the 502 answer; an
  exception raised while that answer is built leaves the function. The last \<^verbatim>\<open>try\<close>
  holds \<^verbatim>\<open>json()\<close> and the construction of the JSON response; its \<^verbatim>\<open>except\<close> clause
  catches the classes of \<open>isinstance_ValueError\<close>, and an exception raised inside that
  clause leaves the function.
\<close>

text \<open>\<^verbatim>\<open>fn_get_irc_configuration\<close>, lines 41 to 86.\<close>

definition fn_get_irc_configuration ::
  "globals \<Rightarrow> 'j world \<Rightarrow> http_request \<Rightarrow> ('j exn + http_response) \<times> event list" where
  "fn_get_irc_configuration g w req =
     (let
          workspace = params req ''workspace'';
          dataitem = params req ''dataitem'';
          warehouse_id = ''/'' @ fmt workspace @ ''/'' @ fmt dataitem;
          (token, evs) =
            (case acquire_onelake_token g w of
               (Inr t, es) \<Rightarrow>
                 (t, LogInfo ''Python HTTP trigger function processed a request.'' # es)
             | (Inl e, es) \<Rightarrow>
                 (PNone, LogInfo ''Python HTTP trigger function processed a request.'' # es @
                    [LogWarning (''Could not acquire OneLake token: '' @ exn_str e)]));
          tables_url = ''https://onelake.dfs.fabric.microsoft.com/iceberg/v1/config?warehouse='' @ warehouse_id
      in
      if token = PNone then
        (HttpResponse ''Authentication required for OneLake tables call'' 401 None,
         evs @ [LogError ''Token required for OneLake tables call but not available''])
      else
        let headers = [(''Authorization'', ''Bearer '' @ py_str token),
                       (''Accept'', ''application/json'')];
            evs = evs @ [HttpGet tables_url headers 30]
        in
        case (case requests_get w tables_url headers 30 of
                Inl e \<Rightarrow> Inl e
              | Inr tables_response \<Rightarrow>
                  (case raise_for_status w tables_response of
                     Some e \<Rightarrow> Inl e
                   | None \<Rightarrow> Inr tables_response)) of
          Inl e \<Rightarrow>
            if isinstance_RequestException (exn_class e) then
              (let evs = evs @ [LogError (''OneLake tables API request failed: '' @ exn_str e)]
               in case (case exn_response e of
                          None \<Rightarrow> None
                        | Some resp \<Rightarrow>
                            (case HttpResponse (up_text resp) (up_status_code resp) None
                                    :: 'j exn + http_response of
                               Inr r \<Rightarrow> Some r
                             | Inl _ \<Rightarrow> None)) of
                    Some r \<Rightarrow> (Inr r, evs)
                  | None \<Rightarrow> (HttpResponse (exn_str e) 502 None, evs))
            else (Inl e, evs)
        | Inr tables_response \<Rightarrow>
            (case (case up_json tables_response of
                     Inl (c, m) \<Rightarrow> Inl (Exn c m None)
                   | Inr tables \<Rightarrow>
                       HttpResponse (json_dumps w tables) (up_status_code tables_response)
                         (Some ''application/json'')) of
               Inr r \<Rightarrow> (Inr r, evs)
             | Inl e \<Rightarrow>
                 if isinstance_ValueError (exn_class e) then
                   (HttpResponse (up_text tables_response) (up_status_code tables_response) None,
                    evs)
                 else (Inl e, evs)))"

text \<open>\<^verbatim>\<open>fn_list_namespaces\<close>, lines 91 to 136.\<close>

definition fn_list_namespaces ::
  "globals \<Rightarrow> 'j world \<Rightarrow> http_request \<Rightarrow> ('j exn + http_response) \<times> event list" where
  "fn_list_namespaces g w req =
     (let
          workspace = params req ''workspace'';
          dataitem = params req ''dataitem'';
          warehouse_id = ''/'' @ fmt workspace @ ''/'' @ fmt dataitem;
          (token, evs) =
            (case acquire_onelake_token g w of
               (Inr t, es) \<Rightarrow>
                 (t, LogInfo ''Python HTTP trigger function processed a request.'' # es)
             | (Inl e, es) \<Rightarrow>
                 (PNone, LogInfo ''Python HTTP trigger function processed a request.'' # es @
                    [LogWarning (''Could not acquire OneLake token: '' @ exn_str e)]));
          tables_url = ''https://onelake.dfs.fabric.microsoft.com/iceberg/v1/'' @ warehouse_id @ ''/namespaces''
      in
      if token = PNone then
        (HttpResponse ''Authentication required for OneLake tables call'' 401 None,
         evs @ [LogError ''Token required for OneLake tables call but not available''])
      else
        let headers = [(''Authorization'', ''Bearer '' @ py_str token),
                       (''Accept'', ''application/json'')];
            evs = evs @ [HttpGet tables_url headers 30]
        in
        case (case requests_get w tables_url headers 30 of
                Inl e \<Rightarrow> Inl e
              | Inr tables_response \<Rightarrow>
                  (case raise_for_status w tables_response of
                     Some e \<Rightarrow> Inl e
                   | None \<Rightarrow> Inr tables_response)) of
          Inl e \<Rightarrow>
            if isinstance_RequestException (exn_class e) then
              (let evs = evs @ [LogError (''OneLake tables API request failed: '' @ exn_str e)]
               in case (case exn_response e of
                          None \<Rightarrow> None
                        | Some resp \<Rightarrow>
                            (case HttpResponse (up_text resp) (up_status_code resp) None
                                    :: 'j exn + http_response of
                               Inr r \<Rightarrow> Some r
                             | Inl _ \<Rightarrow> None)) of
                    Some r \<Rightarrow> (Inr r, evs)
                  | None \<Rightarrow> (HttpResponse (exn_str e) 502 None, evs))
            else (Inl e, evs)
        | Inr tables_response \<Rightarrow>
            (case (case up_json tables_response of
                     Inl (c, m) \<Rightarrow> Inl (Exn c m None)
                   | Inr tables \<Rightarrow>
                       HttpResponse (json_dumps w tables) (up_status_code tables_response)
                         (Some ''application/json'')) of
               Inr r \<Rightarrow> (Inr r, evs)
             | Inl e \<Rightarrow>
                 if isinstance_ValueError (exn_class e) then
                   (HttpResponse (up_text tables_response) (up_status_code tables_response) None,
                    evs)
                 else (Inl e, evs)))"

text \<open>\<^verbatim>\<open>fn_get_schema_details\<close>, lines 140 to 186.\<close>

definition fn_get_schema_details ::
  "globals \<Rightarrow> 'j world \<Rightarrow> http_request \<Rightarrow> ('j exn + http_response) \<times> event list" where
  "fn_get_schema_details g w req =
     (let
          workspace = params req ''workspace'';
          dataitem = params req ''dataitem'';
          schema = params req ''schema'';
          warehouse_id = ''/'' @ fmt workspace @ ''/'' @ fmt dataitem;
          (token, evs) =
            (case acquire_onelake_token g w of
               (Inr t, es) \<Rightarrow>
                 (t, LogInfo ''Python HTTP trigger function processed a request.'' # es)
             | (Inl e, es) \<Rightarrow>
                 (PNone, LogInfo ''Python HTTP trigger function processed a request.'' # es @
                    [LogWarning (''Could not acquire OneLake token: '' @ exn_str e)]));
          tables_url = ''https://onelake.dfs.fabric.microsoft.com/iceberg/v1/'' @ warehouse_id @
                       ''/namespaces/'' @ fmt schema
      in
      if token = PNone then
        (HttpResponse ''Authentication required for OneLake tables call'' 401 None,
         evs @ [LogError ''Token required for OneLake tables call but not available''])
      else
        let headers = [(''Authorization'', ''Bearer '' @ py_str token),
                       (''Accept'', ''application/json'')];
            evs = evs @ [HttpGet tables_url headers 30]
        in
        case (case requests_get w tables_url headers 30 of
                Inl e \<Rightarrow> Inl e
              | Inr tables_response \<Rightarrow>
                  (case raise_for_status w tables_response of
                     Some e \<Rightarrow> Inl e
                   | None \<Rightarrow> Inr tables_response)) of
          Inl e \<Rightarrow>
            if isinstance_RequestException (exn_class e) then
              (let evs = evs @ [LogError (''OneLake tables API request failed: '' @ exn_str e)]
               in case (case exn_response e of
                          None \<Rightarrow> None
                        | Some resp \<Rightarrow>
                            (case HttpResponse (up_text resp) (up_status_code resp) None
                                    :: 'j exn + http_response of
                               Inr r \<Rightarrow> Some r
                             | Inl _ \<Rightarrow> None)) of
                    Some r \<Rightarrow> (Inr r, evs)
                  | None \<Rightarrow> (HttpResponse (exn_str e) 502 None, evs))
            else (Inl e, evs)
        | Inr tables_response \<Rightarrow>
            (case (case up_json tables_response of
                     Inl (c, m) \<Rightarrow> Inl (Exn c m None)
                   | Inr tables \<Rightarrow>
                       HttpResponse (json_dumps w tables) (up_status_code tables_response)
                         (Some ''application/json'')) of
               Inr r \<Rightarrow> (Inr r, evs)
             | Inl e \<Rightarrow>
                 if isinstance_ValueError (exn_class e) then
                   (HttpResponse (up_text tables_response) (up_status_code tables_response) None,
                    evs)
                 else (Inl e, evs)))"

text \<open>\<^verbatim>\<open>fn_read_iceberg_catalog\<close>, lines 190 to 236.\<close>

definition fn_read_iceberg_catalog ::
  "globals \<Rightarrow> 'j world \<Rightarrow> http_request \<Rightarrow> ('j exn + http_response) \<times> event list" where
  "fn_read_iceberg_catalog g w req =
     (let
          workspace = params req ''workspace'';
          dataitem = params req ''dataitem'';
          schema = params req ''schema'';
          warehouse_id = ''/'' @ fmt workspace @ ''/'' @ fmt dataitem;
          (token, evs) =
            (case acquire_onelake_token g w of
               (Inr t, es) \<Rightarrow>
                 (t, LogInfo ''Python HTTP trigger function processed a request.'' # es)
             | (Inl e, es) \<Rightarrow>
                 (PNone, LogInfo ''Python HTTP trigger function processed a request.'' # es @
                    [LogWarning (''Could not acquire OneLake token: '' @ exn_str e)]));
          tables_url = ''https://onelake.dfs.fabric.microsoft.com/iceberg/v1/'' @ warehouse_id @
                       ''/namespaces/'' @ fmt schema @ ''/tables''
      in
      if token = PNone then
        (HttpResponse ''Authentication required for OneLake tables call'' 401 None,
         evs @ [LogError ''Token required for OneLake tables call but not available''])
      else
        let headers = [(''Authorization'', ''Bearer '' @ py_str token),
                       (''Accept'', ''application/json'')];
            evs = evs @ [HttpGet tables_url headers 30]
        in
        case (case requests_get w tables_url headers 30 of
                Inl e \<Rightarrow> Inl e
              | Inr tables_response \<Rightarrow>
                  (case raise_for_status w tables_response of
                     Some e \<Rightarrow> Inl e
                   | None \<Rightarrow> Inr tables_response)) of
          Inl e \<Rightarrow>
            if isinstance_RequestException (exn_class e) then
              (let evs = evs @ [LogError (''OneLake tables API request failed: '' @ exn_str e)]
               in case (case exn_response e of
                          None \<Rightarrow> None
                        | Some resp \<Rightarrow>
                            (case HttpResponse (up_text resp) (up_status_code resp) None
                                    :: 'j exn + http_response of
                               Inr r \<Rightarrow> Some r
                             | Inl _ \<Rightarrow> None)) of
                    Some r \<Rightarrow> (Inr r, evs)
                  | None \<Rightarrow> (HttpResponse (exn_str e) 502 None, evs))
            else (Inl e, evs)
        | Inr tables_response \<Rightarrow>
            (case (case up_json tables_response of
                     Inl (c, m) \<Rightarrow> Inl (Exn c m None)
                   | Inr tables \<Rightarrow>
                       HttpResponse (json_dumps w tables) (up_status_code tables_response)
                         (Some ''application/json'')) of
               Inr r \<Rightarrow> (Inr r, evs)
             | Inl e \<Rightarrow>
                 if isinstance_ValueError (exn_class e) then
                   (HttpResponse (up_text tables_response) (up_status_code tables_response) None,
                    evs)
                 else (Inl e, evs)))"

text \<open>\<^verbatim>\<open>fn_read_tables\<close>, lines 240 to 287.\<close>

definition fn_read_tables ::
  "globals \<Rightarrow> 'j world \<Rightarrow> http_request \<Rightarrow> ('j exn + http_response) \<times> event list" where
  "fn_read_tables g w req =
     (let
          workspace = params req ''workspace'';
          dataitem = params req ''dataitem'';
          schema = params req ''schema'';
          table = params req ''table'';
          warehouse_id = ''/'' @ fmt workspace @ ''/'' @ fmt dataitem;
          (token, evs) =
            (case acquire_onelake_token g w of
               (Inr t, es) \<Rightarrow>
                 (t, LogInfo ''Python HTTP trigger function processed a request.'' # es)
             | (Inl e, es) \<Rightarrow>
                 (PNone, LogInfo ''Python HTTP trigger function processed a request.'' # es @
                    [LogWarning (''Could not acquire OneLake token: '' @ exn_str e)]));
          tables_url = ''https://onelake.dfs.fabric.microsoft.com/iceberg/v1/'' @ warehouse_id @
                       ''/namespaces/'' @ fmt schema @ ''/tables/'' @ fmt table
      in
      if token = PNone then
        (HttpResponse ''Authentication required for OneLake tables call'' 401 None,
         evs @ [LogError ''Token required for OneLake tables call but not available''])
      else
        let headers = [(''Authorization'', ''Bearer '' @ py_str token),
                       (''Accept'', ''application/json'')];
            evs = evs @ [HttpGet tables_url headers 30]
        in
        case (case requests_get w tables_url headers 30 of
                Inl e \<Rightarrow> Inl e
              | Inr tables_response \<Rightarrow>
                  (case raise_for_status w tables_response of
                     Some e \<Rightarrow> Inl e
                   | None \<Rightarrow> Inr tables_response)) of
          Inl e \<Rightarrow>
            if isinstance_RequestException (exn_class e) then
              (let evs = evs @ [LogError (''OneLake tables API request failed: '' @ exn_str e)]
               in case (case exn_response e of
                          None \<Rightarrow> None
                        | Some resp \<Rightarrow>
                            (case HttpResponse (up_text resp) (up_status_code resp) None
                                    :: 'j exn + http_response of
                               Inr r \<Rightarrow> Some r
                             | Inl _ \<Rightarrow> None)) of
                    Some r \<Rightarrow> (Inr r, evs)
                  | None \<Rightarrow> (HttpResponse (exn_str e) 502 None, evs))
            else (Inl e, evs)
        | Inr tables_response \<Rightarrow>
            (case (case up_json tables_response of
                     Inl (c, m) \<Rightarrow> Inl (Exn c m None)
                   | Inr tables \<Rightarrow>
                       HttpResponse (json_dumps w tables) (up_status_code tables_response)
                         (Some ''application/json'')) of
               Inr r \<Rightarrow> (Inr r, evs)
             | Inl e \<Rightarrow>
                 if isinstance_ValueError (exn_class e) then
                   (HttpResponse (up_text tables_response) (up_status_code tables_response) None,
                    evs)
                 else (Inl e, evs)))"

text \<open>The routes registered with \<^verbatim>\<open>@app.route\<close>, and the function each one runs.\<close>

datatype route =
    Route_get_irc_configuration
  | Route_list_namespaces
  | Route_get_schema_details
  | Route_read_iceberg_catalog
  | Route_read_tables

fun route_name :: "route \<Rightarrow> string" where
  "route_name Route_get_irc_configuration = ''fn_get_irc_configuration''"
| "route_name Route_list_namespaces = ''fn_list_namespaces''"
| "route_name Route_get_schema_details = ''fn_get_schema_details''"
| "route_name Route_read_iceberg_catalog = ''fn_read_iceberg_catalog''"
| "route_name Route_read_tables = ''fn_read_tables''"

fun app_route ::
  "route \<Rightarrow> globals \<Rightarrow> 'j world \<Rightarrow> http_request \<Rightarrow> ('j exn + http_response) \<times> event list" where
  "app_route Route_get_irc_configuration = fn_get_irc_configuration"
| "app_route Route_list_namespaces = fn_list_namespaces"
| "app_route Route_get_schema_details = fn_get_schema_details"
| "app_route Route_read_iceberg_catalog = fn_read_iceberg_catalog"
| "app_route Route_read_tables = fn_read_tables"

section \<open>The pattern shared by the five functions\<close>

text \<open>
  \<open>upstream_url\<close> is the value of \<^verbatim>\<open>tables_url\<close> in the function of each route
  (lines 59, 109, 159, 209 and 260), written as host and path. The steps that the five
  functions repeat are named once: \<open>token_step\<close> is the \<^verbatim>\<open>try\<close> around
  \<^verbatim>\<open>acquire_onelake_token\<close>, \<open>upstream_step\<close> the GET followed by
  \<^verbatim>\<open>raise_for_status\<close>, \<open>relay_attempt\<close> the inner \<^verbatim>\<open>try\<close> that answers with the
  response attached to an exception, \<open>json_attempt\<close> the body of the last \<^verbatim>\<open>try\<close>,
  \<open>translate\<close> the two handlers that turn the outcome into a response, and
  \<open>catalog_proxy\<close> their composition for a given URL. The functions of the source are
  shown equal to it below.
\<close>

definition upstream_url :: "route \<Rightarrow> http_request \<Rightarrow> string" where
  "upstream_url r req =
     (let warehouse = ''/'' @ fmt (params req ''workspace'') @ ''/'' @ fmt (params req ''dataitem'');
          base = ''https://onelake.dfs.fabric.microsoft.com''
      in case r of
           Route_get_irc_configuration \<Rightarrow> base @ ''/iceberg/v1/config?warehouse='' @ warehouse
         | Route_list_namespaces \<Rightarrow> base @ ''/iceberg/v1/'' @ warehouse @ ''/namespaces''
         | Route_get_schema_details \<Rightarrow>
             base @ ''/iceberg/v1/'' @ warehouse @ ''/namespaces/'' @ fmt (params req ''schema'')
         | Route_read_iceberg_catalog \<Rightarrow>
             base @ ''/iceberg/v1/'' @ warehouse @ ''/namespaces/'' @ fmt (params req ''schema'') @
             ''/tables''
         | Route_read_tables \<Rightarrow>
             base @ ''/iceberg/v1/'' @ warehouse @ ''/namespaces/'' @ fmt (params req ''schema'') @
             ''/tables/'' @ fmt (params req ''table''))"

definition token_step :: "globals \<Rightarrow> 'j world \<Rightarrow> pyval \<times> event list" where
  "token_step g w =
     (case acquire_onelake_token g w of
        (Inr t, es) \<Rightarrow> (t, LogInfo ''Python HTTP trigger function processed a request.'' # es)
      | (Inl e, es) \<Rightarrow>
          (PNone, LogInfo ''Python HTTP trigger function processed a request.'' # es @
             [LogWarning (''Could not acquire OneLake token: '' @ exn_str e)]))"

definition upstream_step ::
  "'j world \<Rightarrow> string \<Rightarrow> (string \<times> string) list \<Rightarrow> 'j exn + 'j response" where
  "upstream_step w url headers =
     (case requests_get w url headers 30 of
        Inl e \<Rightarrow> Inl e
      | Inr r \<Rightarrow> (case raise_for_status w r of Some e \<Rightarrow> Inl e | None \<Rightarrow> Inr r))"

definition relay_attempt :: "'j exn \<Rightarrow> http_response option" where
  "relay_attempt e =
     (case exn_response e of
        None \<Rightarrow> None
      | Some resp \<Rightarrow>
          (case HttpResponse (up_text resp) (up_status_code resp) None :: 'j exn + http_response of
             Inr r \<Rightarrow> Some r
           | Inl _ \<Rightarrow> None))"

definition json_attempt :: "'j world \<Rightarrow> 'j response \<Rightarrow> 'j exn + http_response" where
  "json_attempt w r =
     (case up_json r of
        Inl (c, m) \<Rightarrow> Inl (Exn c m None)
      | Inr v \<Rightarrow> HttpResponse (json_dumps w v) (up_status_code r) (Some ''application/json''))"

definition translate ::
  "'j world \<Rightarrow> 'j exn + 'j response \<Rightarrow> ('j exn + http_response) \<times> event list" where
  "translate w outcome =
     (case outcome of
        Inl e \<Rightarrow>
          if isinstance_RequestException (exn_class e) then
            (case relay_attempt e of
               Some r \<Rightarrow> Inr r
             | None \<Rightarrow> HttpResponse (exn_str e) 502 None,
             [LogError (''OneLake tables API request failed: '' @ exn_str e)])
          else (Inl e, [])
      | Inr r \<Rightarrow>
          (case json_attempt w r of
             Inr out \<Rightarrow> Inr out
           | Inl e \<Rightarrow>
               if isinstance_ValueError (exn_class e)
               then HttpResponse (up_text r) (up_status_code r) None
               else Inl e,
           []))"

definition catalog_proxy ::
  "globals \<Rightarrow> 'j world \<Rightarrow> string \<Rightarrow> ('j exn + http_response) \<times> event list" where
  "catalog_proxy g w url =
     (case token_step g w of
        (token, evs) \<Rightarrow>
          if token = PNone then
            (HttpResponse ''Authentication required for OneLake tables call'' 401 None,
             evs @ [LogError ''Token required for OneLake tables call but not available''])
          else
            let headers = [(''Authorization'', ''Bearer '' @ py_str token),
                           (''Accept'', ''application/json'')]
            in case translate w (upstream_step w url headers) of
                 (res, evs') \<Rightarrow> (res, evs @ [HttpGet url headers 30] @ evs'))"

text \<open>
  \<open>no_token\<close> holds of an outcome of \<^verbatim>\<open>acquire_onelake_token\<close> after which the
  variable \<^verbatim>\<open>token\<close> is \<^verbatim>\<open>None\<close>: the call raised, or it returned \<^verbatim>\<open>None\<close>.
  \<open>request_headers\<close> is the dictionary of line 65.
\<close>

fun no_token :: "'e + pyval \<Rightarrow> bool" where
  "no_token (Inl _) = True"
| "no_token (Inr t) = (t = PNone)"

definition request_headers :: "pyval \<Rightarrow> (string \<times> string) list" where
  "request_headers token =
     [(''Authorization'', ''Bearer '' @ py_str token), (''Accept'', ''application/json'')]"

text \<open>What the caller of a function sees: the response, if one is returned.\<close>

fun returned :: "'e + http_response \<Rightarrow> http_response option" where
  "returned (Inl _) = None"
| "returned (Inr r) = Some r"

fun raised_class :: "'r py_exn + 'a \<Rightarrow> exn_class option" where
  "raised_class (Inl e) = Some (exn_class e)"
| "raised_class (Inr _) = None"

text \<open>
  A request whose missing parameters among the four that the functions read are
  replaced by the string \<^verbatim>\<open>None\<close>.
\<close>

definition fill_none :: "http_request \<Rightarrow> http_request" where
  "fill_none req =
     req \<lparr> params := (\<lambda>k. if k = ''workspace'' \<or> k = ''dataitem'' \<or> k = ''schema'' \<or> k = ''table''
                            then Some (fmt (params req k)) else params req k) \<rparr>"

text \<open>
  \<open>provider_rejects\<close> holds when the credentials are set, the MSAL application is
  constructed, and the identity provider answers the client-credentials request with a
  result that has no \<^verbatim>\<open>access_token\<close>.
\<close>

definition provider_rejects :: "globals \<Rightarrow> 'j world \<Rightarrow> bool" where
  "provider_rejects g w =
     (truthy (TENANT_ID g) \<and> truthy (CLIENT_ID g) \<and> truthy (CLIENT_SECRET g) \<and>
      (let app = \<lparr> client_id = CLIENT_ID g, authority = AUTHORITY g,
                   client_credential = CLIENT_SECRET g \<rparr>
       in ConfidentialClientApplication w app = None \<and>
          (case acquire_token_for_client w app [''https://storage.azure.com/.default''] of
             Inl _ \<Rightarrow> False
           | Inr result \<Rightarrow> result ''access_token'' = None)))"


section \<open>Sample environments\<close>

text \<open>
  The status check of \<^verbatim>\<open>requests\<close>: \<^verbatim>\<open>raise_for_status\<close> raises an \<^verbatim>\<open>HTTPError\<close>
  that carries the response when the status is in 400..599, with the message that the
  library composes.
\<close>

definition requests_raise_for_status :: "'j response \<Rightarrow> 'j exn option" where
  "requests_raise_for_status r =
     (if 400 \<le> up_status_code r \<and> up_status_code r < 500
      then Some (Exn HTTPError
                   (int_str (up_status_code r) @ '' Client Error: '' @ up_reason r @
                    '' for url: '' @ up_url r) (Some r))
      else if 500 \<le> up_status_code r \<and> up_status_code r < 600
      then Some (Exn HTTPError
                   (int_str (up_status_code r) @ '' Server Error: '' @ up_reason r @
                    '' for url: '' @ up_url r) (Some r))
      else None)"

text \<open>
  The values that \<^verbatim>\<open>json()\<close> returns in the samples are integers, the float infinity
  and lists of them; \<open>sample_dumps\<close> is \<^verbatim>\<open>json.dumps\<close> on these.
\<close>

datatype sample_json = SInt int | SInfinity | SList "sample_json list"

fun join :: "string \<Rightarrow> string list \<Rightarrow> string" where
  "join sep [] = []"
| "join sep [x] = x"
| "join sep (x # y # ys) = x @ sep @ join sep (y # ys)"

fun sample_dumps :: "sample_json \<Rightarrow> string" where
  "sample_dumps (SInt i) = int_str i"
| "sample_dumps SInfinity = ''Infinity''"
| "sample_dumps (SList xs) = ''['' @ join '', '' (map sample_dumps xs) @ '']''"

text \<open>
  A world in which the identity provider answers \<open>tok\<close> and the catalog answers \<open>up\<close>
  to every request (the response knows the URL it was asked for).
\<close>

definition sample_world ::
  "(sample_json exn + dict) \<Rightarrow> (sample_json exn + sample_json response) \<Rightarrow> sample_json world" where
  "sample_world tok up =
     \<lparr> ConfidentialClientApplication = (\<lambda>_. None),
       acquire_token_for_client = (\<lambda>_ _. tok),
       requests_get = (\<lambda>url _ _. case up of Inl e \<Rightarrow> Inl e | Inr r \<Rightarrow> Inr (r \<lparr> up_url := url \<rparr>)),
       raise_for_status = requests_raise_for_status,
       json_dumps = sample_dumps,
       str_dict = (\<lambda>_. ''{...}'') \<rparr>"

definition env_set :: "string \<rightharpoonup> string" where
  "env_set = [''TENANT_ID'' \<mapsto> ''tenant-1'', ''CLIENT_ID'' \<mapsto> ''client-1'',
              ''CLIENT_SECRET'' \<mapsto> ''secret-1'', ''ONELAKE_SCOPE'' \<mapsto> ''api://custom/.default'']"

definition env_unset :: "string \<rightharpoonup> string" where
  "env_unset = [''TENANT_ID'' \<mapsto> ''tenant-1'', ''CLIENT_ID'' \<mapsto> ''client-1'',
                ''CLIENT_SECRET'' \<mapsto> []]"

definition token_granted :: "sample_json exn + dict" where
  "token_granted = Inr [''access_token'' \<mapsto> PStr ''tok-1'', ''expires_in'' \<mapsto> PInt 3599]"

definition token_rejected :: "sample_json exn + dict" where
  "token_rejected = Inr [''error'' \<mapsto> PStr ''invalid_client'',
                         ''error_description'' \<mapsto> PStr ''AADSTS7000215: Invalid client secret'']"

definition token_null :: "sample_json exn + dict" where
  "token_null = Inr [''access_token'' \<mapsto> PNone]"

definition upstream_ok :: "sample_json exn + sample_json response" where
  "upstream_ok = Inr \<lparr> up_status_code = 200, up_reason = ''OK'', up_url = [],
                        up_text = ''[1,2]'', up_json = Inr (SList [SInt 1, SInt 2]) \<rparr>"

definition upstream_plain :: "sample_json exn + sample_json response" where
  "upstream_plain = Inr \<lparr> up_status_code = 200, up_reason = ''OK'', up_url = [],
                           up_text = ''pong'',
                           up_json = Inl (JSONDecodeError, ''Expecting value'') \<rparr>"

definition upstream_not_found :: "sample_json exn + sample_json response" where
  "upstream_not_found = Inr \<lparr> up_status_code = 404, up_reason = ''Not Found'', up_url = [],
                               up_text = ''not found'',
                               up_json = Inl (JSONDecodeError, ''Expecting value'') \<rparr>"

text \<open>
  A number too large for a float: \<^verbatim>\<open>json()\<close> reads \<^verbatim>\<open>1e400\<close> as the float infinity.
\<close>

definition upstream_overflow :: "sample_json exn + sample_json response" where
  "upstream_overflow = Inr \<lparr> up_status_code = 200, up_reason = ''OK'', up_url = [],
                              up_text = ''[1e400]'', up_json = Inr (SList [SInfinity]) \<rparr>"

text \<open>
  Bodies whose text is the lone surrogate U+D800 (what the body \<^verbatim>\<open>+2AA-\<close> with the
  declared charset \<^verbatim>\<open>utf-7\<close> decodes to), with status 404 and with status 200.
\<close>

definition upstream_surrogate_not_found :: "sample_json exn + sample_json response" where
  "upstream_surrogate_not_found =
     Inr \<lparr> up_status_code = 404, up_reason = ''Not Found'', up_url = [],
           up_text = [CHR 0xED, CHR 0xA0, CHR 0x80],
           up_json = Inl (JSONDecodeError, ''Expecting value'') \<rparr>"

definition upstream_surrogate_plain :: "sample_json exn + sample_json response" where
  "upstream_surrogate_plain =
     Inr \<lparr> up_status_code = 200, up_reason = ''OK'', up_url = [],
           up_text = [CHR 0xED, CHR 0xA0, CHR 0x80],
           up_json = Inl (JSONDecodeError, ''Expecting value'') \<rparr>"

definition upstream_refused :: "sample_json exn + sample_json response" where
  "upstream_refused = Inl (Exn ConnectionError ''Connection refused'' None)"

definition upstream_ca_bundle :: "sample_json exn + sample_json response" where
  "upstream_ca_bundle =
     Inl (Exn OSError
            ''Could not find a suitable TLS CA certificate bundle, invalid path: /missing/ca.pem''
            None)"

definition sample_request :: http_request where
  "sample_request = \<lparr> params = [''workspace'' \<mapsto> ''ws1'', ''dataitem'' \<mapsto> ''item1.Lakehouse'',
                                  ''schema'' \<mapsto> ''s1'', ''table'' \<mapsto> ''t1''] \<rparr>"

definition two_param_request :: http_request where
  "two_param_request =
     \<lparr> params = [''workspace'' \<mapsto> ''ws1'', ''dataitem'' \<mapsto> ''item1.Lakehouse''] \<rparr>"

definition three_param_request :: http_request where
  "three_param_request =
     \<lparr> params = [''workspace'' \<mapsto> ''ws1'', ''dataitem'' \<mapsto> ''item1.Lakehouse'',
                  ''schema'' \<mapsto> ''s1''] \<rparr>"

definition empty_request :: http_request where
  "empty_request = \<lparr> params = Map.empty \<rparr>"

definition partial_request :: http_request where
  "partial_request = \<lparr> params = [''workspace'' \<mapsto> ''ws1''] \<rparr>"

text \<open>Two requests for which two different routes build the same URL.\<close>

definition request_namespaces :: http_request where
  "request_namespaces =
     \<lparr> params = [''workspace'' \<mapsto> ''ws1'', ''dataitem'' \<mapsto> ''item1.Lakehouse/namespaces/s1''] \<rparr>"

definition request_schema :: http_request where
  "request_schema =
     \<lparr> params = [''workspace'' \<mapsto> ''ws1'', ''dataitem'' \<mapsto> ''item1.Lakehouse'',
                  ''schema'' \<mapsto> ''s1/namespaces''] \<rparr>"

section \<open>The functions follow the shared pattern\<close>

lemmas proxy_defs = catalog_proxy_def token_step_def upstream_step_def translate_def
  relay_attempt_def json_attempt_def upstream_url_def

lemma fn_get_irc_configuration_proxy:
  "fn_get_irc_configuration g w req = catalog_proxy g w (upstream_url Route_get_irc_configuration req)"
  unfolding fn_get_irc_configuration_def proxy_defs
  by (simp add: Let_def split: prod.splits sum.splits option.splits)

lemma fn_list_namespaces_proxy:
  "fn_list_namespaces g w req = catalog_proxy g w (upstream_url Route_list_namespaces req)"
  unfolding fn_list_namespaces_def proxy_defs
  by (simp add: Let_def split: prod.splits sum.splits option.splits)

lemma fn_get_schema_details_proxy:
  "fn_get_schema_details g w req = catalog_proxy g w (upstream_url Route_get_schema_details req)"
  unfolding fn_get_schema_details_def proxy_defs
  by (simp add: Let_def split: prod.splits sum.splits option.splits)

lemma fn_read_iceberg_catalog_proxy:
  "fn_read_iceberg_catalog g w req = catalog_proxy g w (upstream_url Route_read_iceberg_catalog req)"
  unfolding fn_read_iceberg_catalog_def proxy_defs
  by (simp add: Let_def split: prod.splits sum.splits option.splits)

lemma fn_read_tables_proxy:
  "fn_read_tables g w req = catalog_proxy g w (upstream_url Route_read_tables req)"
  unfolding fn_read_tables_def proxy_defs
  by (simp add: Let_def split: prod.splits sum.splits option.splits)

lemma app_route_proxy: "app_route r g w req = catalog_proxy g w (upstream_url r req)"
  by (cases r) (simp_all add: fn_get_irc_configuration_proxy fn_list_namespaces_proxy
      fn_get_schema_details_proxy fn_read_iceberg_catalog_proxy fn_read_tables_proxy)

section \<open>Properties of the shared pattern\<close>

lemma upstream_calls_append [simp]:
  "upstream_calls (xs @ ys) = upstream_calls xs @ upstream_calls ys"
  by (induction xs rule: upstream_calls.induct) simp_all

lemma requested_scopes_append [simp]:
  "requested_scopes (xs @ ys) = requested_scopes xs @ requested_scopes ys"
  by (induction xs rule: requested_scopes.induct) simp_all

lemma acquire_no_upstream_call [simp]:
  "upstream_calls (snd (acquire_onelake_token g w)) = []"
  by (simp add: acquire_onelake_token_def Let_def split: option.splits sum.splits)

lemma token_step_absent:
  "no_token (fst (acquire_onelake_token g w)) \<Longrightarrow> fst (token_step g w) = PNone"
  by (cases "acquire_onelake_token g w"; cases "fst (acquire_onelake_token g w)")
     (auto simp: token_step_def)

lemma token_step_present:
  "fst (acquire_onelake_token g w) = Inr t \<Longrightarrow> fst (token_step g w) = t"
  by (cases "acquire_onelake_token g w") (auto simp: token_step_def)

lemma token_step_no_upstream_call [simp]:
  "upstream_calls (snd (token_step g w)) = []"
proof (cases "acquire_onelake_token g w")
  case (Pair res es)
  then have "upstream_calls es = []"
    using acquire_no_upstream_call [of g w] by simp
  with Pair show ?thesis
    by (cases res) (simp_all add: token_step_def)
qed

lemma token_step_warning:
  "fst (acquire_onelake_token g w) = Inl e \<Longrightarrow>
   LogWarning (''Could not acquire OneLake token: '' @ exn_str e) \<in> set (snd (token_step g w))"
  by (cases "acquire_onelake_token g w") (auto simp: token_step_def)

lemma translate_no_upstream_call [simp]:
  "upstream_calls (snd (translate w outcome)) = []"
  by (simp add: translate_def split: sum.splits)

lemma auth_literal_encodes:
  "\<not> has_lone_surrogate ''Authentication required for OneLake tables call''"
  by simp

lemma HttpResponse_ok:
  "\<not> has_lone_surrogate b \<Longrightarrow>
   HttpResponse b sc mt = Inr \<lparr> body = b, status_code = sc, mimetype = mt \<rparr>"
  by (simp add: HttpResponse_def)

lemma HttpResponse_fail:
  "has_lone_surrogate b \<Longrightarrow>
   HttpResponse b sc mt = Inl (Exn UnicodeEncodeError ''surrogates not allowed'' None)"
  by (simp add: HttpResponse_def)

lemma proxy_no_token:
  assumes "no_token (fst (acquire_onelake_token g w))"
  shows "catalog_proxy g w url =
           (Inr \<lparr> body = ''Authentication required for OneLake tables call'',
                  status_code = 401, mimetype = None \<rparr>,
            snd (token_step g w) @
              [LogError ''Token required for OneLake tables call but not available''])"
  using token_step_absent [OF assms]
  by (cases "token_step g w")
     (simp add: catalog_proxy_def HttpResponse_ok [OF auth_literal_encodes])

lemma proxy_token:
  assumes "fst (acquire_onelake_token g w) = Inr t" and "t \<noteq> PNone"
  shows "catalog_proxy g w url =
           (fst (translate w (upstream_step w url (request_headers t))),
            snd (token_step g w) @ [HttpGet url (request_headers t) 30] @
              snd (translate w (upstream_step w url (request_headers t))))"
  using token_step_present [OF assms(1)] assms(2)
  by (cases "token_step g w")
     (simp add: catalog_proxy_def request_headers_def Let_def split: prod.splits)

lemma proxy_upstream_calls:
  "upstream_calls (snd (catalog_proxy g w url)) =
     (if no_token (fst (acquire_onelake_token g w)) then [] else [url])"
proof (cases "no_token (fst (acquire_onelake_token g w))")
  case True
  then show ?thesis by (simp add: proxy_no_token)
next
  case False
  then obtain t where "fst (acquire_onelake_token g w) = Inr t" "t \<noteq> PNone"
    by (cases "fst (acquire_onelake_token g w)") auto
  with False show ?thesis by (simp add: proxy_token)
qed

section \<open>Sample runs of the token acquisition\<close>

lemmas sample_defs = sample_world_def env_set_def env_unset_def token_granted_def
  token_rejected_def token_null_def upstream_ok_def upstream_plain_def upstream_not_found_def
  upstream_refused_def upstream_ca_bundle_def upstream_overflow_def
  upstream_surrogate_not_found_def upstream_surrogate_plain_def
  sample_request_def two_param_request_def three_param_request_def empty_request_def
  requests_raise_for_status_def module_globals_def py_or_def

lemma acquire_unset:
  "acquire_onelake_token (module_globals env_unset) w =
     (Inl (Exn RuntimeError
        ''TENANT_ID, CLIENT_ID and CLIENT_SECRET must be set in environment (local.settings.json for local dev).''
        None), [])"
  by (simp add: acquire_onelake_token_def sample_defs Let_def)

lemma acquire_granted:
  "fst (acquire_onelake_token (module_globals env_set) (sample_world token_granted up)) =
     Inr (PStr ''tok-1'')"
  by (simp add: acquire_onelake_token_def sample_defs Let_def)

lemma acquire_rejected:
  "fst (acquire_onelake_token (module_globals env_set) (sample_world token_rejected up)) =
     Inl (Exn RuntimeError ''Failed to acquire token: AADSTS7000215: Invalid client secret'' None)"
  by (simp add: acquire_onelake_token_def sample_defs Let_def)

lemma acquire_null:
  "fst (acquire_onelake_token (module_globals env_set) (sample_world token_null up)) = Inr PNone"
  by (simp add: acquire_onelake_token_def sample_defs Let_def)

section \<open>Missing token\<close>

text \<open>
  Claim C1, as the code has it. For every route, configuration, world and request: when
  \<^verbatim>\<open>acquire_onelake_token\<close> raises or returns \<^verbatim>\<open>None\<close>, the function returns status
  401 with the body \<^verbatim>\<open>Authentication required for OneLake tables call\<close>, no GET is
  issued to the catalog, and an exception raised by the acquisition is not propagated
  but logged as a warning. The 401 comes from the test of the variable \<^verbatim>\<open>token\<close>,
  which is why an acquisition that returns \<^verbatim>\<open>None\<close> without raising gives it too.
\<close>

theorem token_absent_gives_401:
  assumes "no_token (fst (acquire_onelake_token g w))"
  shows "fst (app_route r g w req) =
           Inr \<lparr> body = ''Authentication required for OneLake tables call'',
                  status_code = 401, mimetype = None \<rparr>
         \<and> upstream_calls (snd (app_route r g w req)) = []
         \<and> (\<forall>e. fst (acquire_onelake_token g w) = Inl e \<longrightarrow>
               LogWarning (''Could not acquire OneLake token: '' @ exn_str e)
                 \<in> set (snd (app_route r g w req)))"
proof -
  let ?url = "upstream_url r req"
  have run: "app_route r g w req = catalog_proxy g w ?url"
    by (rule app_route_proxy)
  have res: "fst (catalog_proxy g w ?url) =
               Inr \<lparr> body = ''Authentication required for OneLake tables call'',
                      status_code = 401, mimetype = None \<rparr>"
    by (simp add: proxy_no_token [OF assms])
  have calls: "upstream_calls (snd (catalog_proxy g w ?url)) = []"
    using assms by (simp add: proxy_upstream_calls)
  have logged: "LogWarning (''Could not acquire OneLake token: '' @ exn_str e)
                  \<in> set (snd (catalog_proxy g w ?url))"
    if "fst (acquire_onelake_token g w) = Inl e" for e
  proof -
    have "set (snd (token_step g w)) \<subseteq> set (snd (catalog_proxy g w ?url))"
      by (auto simp: proxy_no_token [OF assms])
    with token_step_warning [OF that] show ?thesis by blast
  qed
  from res calls logged show ?thesis unfolding run by blast
qed

text \<open>
  An identity provider whose result has a null \<^verbatim>\<open>access_token\<close>: nothing is raised,
  and the request for a table is answered 401 without a call to the catalog.
\<close>

theorem token_absent_gives_401_witness:
  "no_token (fst (acquire_onelake_token (module_globals env_set)
                    (sample_world token_null upstream_ok)))
   \<and> fst (app_route Route_read_tables (module_globals env_set)
        (sample_world token_null upstream_ok) sample_request) =
       Inr \<lparr> body = ''Authentication required for OneLake tables call'',
              status_code = 401, mimetype = None \<rparr>
   \<and> upstream_calls (snd (app_route Route_read_tables (module_globals env_set)
        (sample_world token_null upstream_ok) sample_request)) = []"
proof -
  have h: "no_token (fst (acquire_onelake_token (module_globals env_set)
                    (sample_world token_null upstream_ok)))"
    by (simp add: acquire_null)
  from token_absent_gives_401 [OF h, of Route_read_tables sample_request] h
  show ?thesis by blast
qed

text \<open>
  Claim C1 as stated gives the body as \<^verbatim>\<open>Authentication required\<close>. With the client
  secret empty the acquisition raises, and the body returned is the longer sentence.
\<close>

theorem auth_body_counterexample:
  "no_token (fst (acquire_onelake_token (module_globals env_unset)
                    (sample_world token_granted upstream_ok)))
   \<and> map_option body (returned (fst (app_route Route_get_irc_configuration
        (module_globals env_unset) (sample_world token_granted upstream_ok) sample_request)))
       = Some ''Authentication required for OneLake tables call''
   \<and> map_option body (returned (fst (app_route Route_get_irc_configuration
        (module_globals env_unset) (sample_world token_granted upstream_ok) sample_request)))
       \<noteq> Some ''Authentication required''"
proof -
  have h: "no_token (fst (acquire_onelake_token (module_globals env_unset)
                    (sample_world token_granted upstream_ok)))"
    by (simp add: acquire_unset)
  show ?thesis
    unfolding app_route_proxy proxy_no_token [OF h] using h by simp
qed


section \<open>Token acquisition: scope and credentials\<close>

text \<open>
  Claim C2. \<^verbatim>\<open>ONELAKE_SCOPE\<close> is read from the environment variable of that name, with
  the storage scope as default. \<^verbatim>\<open>acquire_onelake_token\<close> does not depend on it: with
  any other value of \<^verbatim>\<open>ONELAKE_SCOPE\<close> its result and events are the same. The scopes
  of the client-credentials request, when the function gets as far as making it, are
  the one literal \<^verbatim>\<open>https://storage.azure.com/.default\<close>.
\<close>

theorem configured_scope_unused:
  "ONELAKE_SCOPE (module_globals getenv) =
     (case getenv ''ONELAKE_SCOPE'' of
        None \<Rightarrow> ''https://storage.azure.com/.default'' | Some s \<Rightarrow> s)
   \<and> acquire_onelake_token (g \<lparr> ONELAKE_SCOPE := s \<rparr>) w = acquire_onelake_token g w
   \<and> requested_scopes (snd (acquire_onelake_token g w)) =
       (if truthy (TENANT_ID g) \<and> truthy (CLIENT_ID g) \<and> truthy (CLIENT_SECRET g) \<and>
           ConfidentialClientApplication w
             \<lparr> client_id = CLIENT_ID g, authority = AUTHORITY g,
               client_credential = CLIENT_SECRET g \<rparr> = None
        then [[''https://storage.azure.com/.default'']] else [])"
proof -
  have a: "ONELAKE_SCOPE (module_globals getenv) =
     (case getenv ''ONELAKE_SCOPE'' of
        None \<Rightarrow> ''https://storage.azure.com/.default'' | Some s \<Rightarrow> s)"
    by (simp add: module_globals_def Let_def)
  have b: "acquire_onelake_token (g \<lparr> ONELAKE_SCOPE := s \<rparr>) w = acquire_onelake_token g w"
    by (simp add: acquire_onelake_token_def)
  have c: "requested_scopes (snd (acquire_onelake_token g w)) =
       (if truthy (TENANT_ID g) \<and> truthy (CLIENT_ID g) \<and> truthy (CLIENT_SECRET g) \<and>
           ConfidentialClientApplication w
             \<lparr> client_id = CLIENT_ID g, authority = AUTHORITY g,
               client_credential = CLIENT_SECRET g \<rparr> = None
        then [[''https://storage.azure.com/.default'']] else [])"
    by (simp add: acquire_onelake_token_def Let_def split: option.splits sum.splits)
  from a b c show ?thesis by blast
qed

text \<open>
  With \<^verbatim>\<open>ONELAKE_SCOPE\<close> set to another scope in the environment, the request still
  asks for the storage scope.
\<close>

theorem configured_scope_unused_witness:
  "ONELAKE_SCOPE (module_globals env_set) = ''api://custom/.default''
   \<and> requested_scopes (snd (acquire_onelake_token (module_globals env_set)
        (sample_world token_granted upstream_ok))) = [[''https://storage.azure.com/.default'']]"
proof -
  have t: "truthy (TENANT_ID (module_globals env_set)) \<and> truthy (CLIENT_ID (module_globals env_set))
     \<and> truthy (CLIENT_SECRET (module_globals env_set))"
    by (simp add: sample_defs)
  have k: "ConfidentialClientApplication (sample_world token_granted upstream_ok) a = None" for a
    by (simp add: sample_world_def)
  have s: "ONELAKE_SCOPE (module_globals env_set) = ''api://custom/.default''"
    by (simp add: sample_defs)
  from configured_scope_unused [where getenv = env_set and g = "module_globals env_set"
      and s = "[]" and w = "sample_world token_granted upstream_ok"] t k s
  show ?thesis by simp
qed

text \<open>
  Claim C6, as the code has it. When the tenant, the client identifier or the client
  secret is unset or empty, \<^verbatim>\<open>acquire_onelake_token\<close> raises at once: there is no
  event at all, so no MSAL application is constructed and no request is made. The
  exception is a \<^verbatim>\<open>RuntimeError\<close>, and so is the one raised when the identity
  provider rejects the request; the two differ in their message only.
\<close>

theorem missing_credentials_fail_first:
  assumes "\<not> (truthy (TENANT_ID g) \<and> truthy (CLIENT_ID g) \<and> truthy (CLIENT_SECRET g))"
    and "provider_rejects g' w'"
  shows "acquire_onelake_token g w =
           (Inl (Exn RuntimeError
              ''TENANT_ID, CLIENT_ID and CLIENT_SECRET must be set in environment (local.settings.json for local dev).''
              None), [])
         \<and> raised_class (fst (acquire_onelake_token g' w')) = Some RuntimeError
         \<and> fst (acquire_onelake_token g' w') \<noteq> fst (acquire_onelake_token g w)"
proof -
  have a: "acquire_onelake_token g w =
           (Inl (Exn RuntimeError
              ''TENANT_ID, CLIENT_ID and CLIENT_SECRET must be set in environment (local.settings.json for local dev).''
              None), [])"
    using assms(1) by (simp add: acquire_onelake_token_def)
  obtain m where b: "fst (acquire_onelake_token g' w') =
      Inl (Exn RuntimeError (''Failed to acquire token: '' @ m) None)"
    using assms(2)
    by (auto simp: provider_rejects_def acquire_onelake_token_def Let_def
             split: sum.splits option.splits)
  have c: "fst (acquire_onelake_token g' w') \<noteq> fst (acquire_onelake_token g w)"
    unfolding a b by simp
  from a b c show ?thesis by simp
qed

text \<open>An empty client secret on one side, a rejected secret on the other.\<close>

theorem missing_credentials_fail_first_witness:
  "\<not> (truthy (TENANT_ID (module_globals env_unset)) \<and> truthy (CLIENT_ID (module_globals env_unset))
       \<and> truthy (CLIENT_SECRET (module_globals env_unset)))
   \<and> provider_rejects (module_globals env_set) (sample_world token_rejected upstream_ok)
   \<and> snd (acquire_onelake_token (module_globals env_unset)
        (sample_world token_rejected upstream_ok)) = []
   \<and> raised_class (fst (acquire_onelake_token (module_globals env_unset)
        (sample_world token_rejected upstream_ok))) = Some RuntimeError
   \<and> fst (acquire_onelake_token (module_globals env_set)
        (sample_world token_rejected upstream_ok)) \<noteq>
      fst (acquire_onelake_token (module_globals env_unset)
        (sample_world token_rejected upstream_ok))"
proof -
  have h1: "\<not> (truthy (TENANT_ID (module_globals env_unset)) \<and>
      truthy (CLIENT_ID (module_globals env_unset)) \<and>
      truthy (CLIENT_SECRET (module_globals env_unset)))"
    by (simp add: sample_defs)
  have h2: "provider_rejects (module_globals env_set) (sample_world token_rejected upstream_ok)"
    by (simp add: provider_rejects_def sample_defs)
  note r = missing_credentials_fail_first [OF h1 h2, of "sample_world token_rejected upstream_ok"]
  from r have n: "fst (acquire_onelake_token (module_globals env_set)
        (sample_world token_rejected upstream_ok)) \<noteq>
      fst (acquire_onelake_token (module_globals env_unset)
        (sample_world token_rejected upstream_ok))"
    by blast
  from r have "snd (acquire_onelake_token (module_globals env_unset)
        (sample_world token_rejected upstream_ok)) = []"
    and "raised_class (fst (acquire_onelake_token (module_globals env_unset)
        (sample_world token_rejected upstream_ok))) = Some RuntimeError"
    by simp_all
  with h1 h2 n show ?thesis by blast
qed

text \<open>
  Claim C6 as stated has the two failures of distinct kinds. Both exceptions have
  the class \<^verbatim>\<open>RuntimeError\<close>.
\<close>

theorem same_error_kind_counterexample:
  "\<not> (truthy (TENANT_ID (module_globals env_unset)) \<and> truthy (CLIENT_ID (module_globals env_unset))
       \<and> truthy (CLIENT_SECRET (module_globals env_unset)))
   \<and> provider_rejects (module_globals env_set) (sample_world token_rejected upstream_ok)
   \<and> raised_class (fst (acquire_onelake_token (module_globals env_unset)
        (sample_world token_rejected upstream_ok))) = Some RuntimeError
   \<and> raised_class (fst (acquire_onelake_token (module_globals env_set)
        (sample_world token_rejected upstream_ok))) = Some RuntimeError"
proof -
  have h1: "\<not> (truthy (TENANT_ID (module_globals env_unset)) \<and>
      truthy (CLIENT_ID (module_globals env_unset)) \<and>
      truthy (CLIENT_SECRET (module_globals env_unset)))"
    by (simp add: sample_defs)
  have h2: "provider_rejects (module_globals env_set) (sample_world token_rejected upstream_ok)"
    by (simp add: provider_rejects_def sample_defs)
  from h1 h2 show ?thesis
    by (simp add: acquire_unset acquire_rejected)
qed

section \<open>Outcome translation and sample runs of the proxy\<close>


lemma fst_proxy_token:
  "fst (acquire_onelake_token g w) = Inr t \<Longrightarrow> t \<noteq> PNone \<Longrightarrow>
   fst (catalog_proxy g w url) = fst (translate w (upstream_step w url (request_headers t)))"
  by (simp add: proxy_token)


lemma relay_attempt_none: "exn_response e = None \<Longrightarrow> relay_attempt e = None"
  by (simp add: relay_attempt_def)

lemma relay_attempt_ok:
  "exn_response e = Some resp \<Longrightarrow> \<not> has_lone_surrogate (up_text resp) \<Longrightarrow>
   relay_attempt e =
     Some \<lparr> body = up_text resp, status_code = up_status_code resp, mimetype = None \<rparr>"
  by (simp add: relay_attempt_def HttpResponse_def)

lemma relay_attempt_fail:
  "exn_response e = Some resp \<Longrightarrow> has_lone_surrogate (up_text resp) \<Longrightarrow>
   relay_attempt e = None"
  by (simp add: relay_attempt_def HttpResponse_def)


lemma translate_relay:
  "isinstance_RequestException (exn_class e) \<Longrightarrow> relay_attempt e = Some out \<Longrightarrow>
   fst (translate w (Inl e)) = Inr out"
  by (simp add: translate_def)

lemma translate_502:
  "isinstance_RequestException (exn_class e) \<Longrightarrow> relay_attempt e = None \<Longrightarrow>
   fst (translate w (Inl e)) = HttpResponse (exn_str e) 502 None"
  by (simp add: translate_def)

lemma translate_uncaught:
  "\<not> isinstance_RequestException (exn_class e) \<Longrightarrow> fst (translate w (Inl e)) = Inl e"
  by (simp add: translate_def)

lemma translate_json:
  "up_json resp = Inr v \<Longrightarrow> \<not> has_lone_surrogate (json_dumps w v) \<Longrightarrow>
   fst (translate w (Inr resp)) =
     Inr \<lparr> body = json_dumps w v, status_code = up_status_code resp,
            mimetype = Some ''application/json'' \<rparr>"
  by (simp add: translate_def json_attempt_def HttpResponse_def)




lemma int_str_digits: "int_str 1 = ''1''" "int_str 2 = ''2''" "int_str 404 = ''404''"
  by code_simp+

lemma sample_dumps_12: "sample_dumps (SList [SInt 1, SInt 2]) = ''[1, 2]''"
  by (simp add: int_str_digits)

lemma sample_upstream_step:
  "upstream_step (sample_world tok up) url hs =
     (case up of Inl e \<Rightarrow> Inl e
      | Inr r \<Rightarrow> (case requests_raise_for_status (r \<lparr> up_url := url \<rparr>) of
                    Some e \<Rightarrow> Inl e | None \<Rightarrow> Inr (r \<lparr> up_url := url \<rparr>)))"
  by (cases up) (simp_all add: upstream_step_def sample_world_def)

lemma sample_json_dumps: "json_dumps (sample_world tok up) = sample_dumps"
  by (simp add: sample_world_def)

lemma sample_url_empty:
  "upstream_url Route_read_tables empty_request =
     ''https://onelake.dfs.fabric.microsoft.com/iceberg/v1//None/None/namespaces/None/tables/None''"
  by (simp add: upstream_url_def empty_request_def)

lemma sample_url_namespaces:
  "upstream_url Route_list_namespaces two_param_request =
     ''https://onelake.dfs.fabric.microsoft.com/iceberg/v1//ws1/item1.Lakehouse/namespaces''"
  by (simp add: upstream_url_def two_param_request_def)

lemma sample_token_present:
  "\<not> no_token (fst (acquire_onelake_token (module_globals env_set) (sample_world token_granted up)))"
  by (simp add: acquire_granted)

lemma sample_upstream_ok:
  "upstream_step (sample_world tok upstream_ok) url hs =
     Inr \<lparr> up_status_code = 200, up_reason = ''OK'', up_url = url, up_text = ''[1,2]'',
           up_json = Inr (SList [SInt 1, SInt 2]) \<rparr>"
  by (simp add: sample_upstream_step upstream_ok_def requests_raise_for_status_def)




lemma sample_upstream_not_found:
  "upstream_step (sample_world tok upstream_not_found) url hs =
     Inl (Exn HTTPError (''404 Client Error: Not Found for url: '' @ url)
            (Some \<lparr> up_status_code = 404, up_reason = ''Not Found'', up_url = url,
                    up_text = ''not found'',
                    up_json = Inl (JSONDecodeError, ''Expecting value'') \<rparr>))"
  by (simp add: sample_upstream_step upstream_not_found_def requests_raise_for_status_def
        int_str_digits)

lemma sample_upstream_surrogate_not_found:
  "upstream_step (sample_world tok upstream_surrogate_not_found) url hs =
     Inl (Exn HTTPError (''404 Client Error: Not Found for url: '' @ url)
            (Some \<lparr> up_status_code = 404, up_reason = ''Not Found'', up_url = url,
                    up_text = [CHR 0xED, CHR 0xA0, CHR 0x80],
                    up_json = Inl (JSONDecodeError, ''Expecting value'') \<rparr>))"
  by (simp add: sample_upstream_step upstream_surrogate_not_found_def
        requests_raise_for_status_def int_str_digits)

lemma sample_upstream_refused:
  "upstream_step (sample_world tok upstream_refused) url hs =
     Inl (Exn ConnectionError ''Connection refused'' None)"
  by (simp add: sample_upstream_step upstream_refused_def)


lemma sample_ok_response:
  "fst (catalog_proxy (module_globals env_set) (sample_world token_granted upstream_ok) url) =
     Inr \<lparr> body = ''[1, 2]'', status_code = 200, mimetype = Some ''application/json'' \<rparr>"
proof -
  have n: "PStr ''tok-1'' \<noteq> PNone" by simp
  let ?r = "\<lparr> up_status_code = 200, up_reason = ''OK'', up_url = url, up_text = ''[1,2]'',
              up_json = Inr (SList [SInt 1, SInt 2]) \<rparr> :: sample_json response"
  have d: "json_dumps (sample_world token_granted upstream_ok) (SList [SInt 1, SInt 2]) = ''[1, 2]''"
    by (simp only: sample_json_dumps sample_dumps_12)
  have "fst (translate (sample_world token_granted upstream_ok) (Inr ?r)) =
     Inr \<lparr> body = json_dumps (sample_world token_granted upstream_ok) (SList [SInt 1, SInt 2]),
            status_code = up_status_code ?r, mimetype = Some ''application/json'' \<rparr>"
    by (rule translate_json) (simp_all add: d)
  then show ?thesis
    unfolding fst_proxy_token [OF acquire_granted n] sample_upstream_ok
    by (simp only: d) simp
qed

section \<open>Upstream URLs\<close>

text \<open>
  Claim C3. For all strings given as \<^verbatim>\<open>workspace\<close> and \<^verbatim>\<open>dataitem\<close>, each of the five
  functions, once it has a token, issues one GET, to the fixed host followed by the
  documented path of its route, in which the warehouse identifier is \<^verbatim>\<open>/\<close>, the
  workspace, \<^verbatim>\<open>/\<close> and the data item, with nothing normalised (so the path has a
  doubled slash after \<^verbatim>\<open>v1\<close>). The configuration and namespace routes need no other
  parameter; the two schema routes append the \<^verbatim>\<open>schema\<close> given, and the table route
  the \<^verbatim>\<open>schema\<close> and \<^verbatim>\<open>table\<close> given.
\<close>

theorem upstream_paths:
  assumes "fst (acquire_onelake_token g w) = Inr t" and "t \<noteq> PNone"
    and "params req ''workspace'' = Some ws" and "params req ''dataitem'' = Some di"
  shows "upstream_calls (snd (fn_get_irc_configuration g w req)) =
           [''https://onelake.dfs.fabric.microsoft.com'' @
            ''/iceberg/v1/config?warehouse='' @ (''/'' @ ws @ ''/'' @ di)]
       \<and> upstream_calls (snd (fn_list_namespaces g w req)) =
           [''https://onelake.dfs.fabric.microsoft.com'' @
            ''/iceberg/v1/'' @ (''/'' @ ws @ ''/'' @ di) @ ''/namespaces'']
       \<and> (\<forall>sc. params req ''schema'' = Some sc \<longrightarrow>
            upstream_calls (snd (fn_get_schema_details g w req)) =
              [''https://onelake.dfs.fabric.microsoft.com'' @
               ''/iceberg/v1/'' @ (''/'' @ ws @ ''/'' @ di) @ ''/namespaces/'' @ sc]
            \<and> upstream_calls (snd (fn_read_iceberg_catalog g w req)) =
              [''https://onelake.dfs.fabric.microsoft.com'' @
               ''/iceberg/v1/'' @ (''/'' @ ws @ ''/'' @ di) @ ''/namespaces/'' @ sc @ ''/tables''])
       \<and> (\<forall>sc tb. params req ''schema'' = Some sc \<and> params req ''table'' = Some tb \<longrightarrow>
            upstream_calls (snd (fn_read_tables g w req)) =
              [''https://onelake.dfs.fabric.microsoft.com'' @
               ''/iceberg/v1/'' @ (''/'' @ ws @ ''/'' @ di) @ ''/namespaces/'' @ sc @
               ''/tables/'' @ tb])"
proof -
  have tok: "\<not> no_token (fst (acquire_onelake_token g w))"
    using assms(1,2) by simp
  have calls: "upstream_calls (snd (catalog_proxy g w url)) = [url]" for url
    using tok by (simp add: proxy_upstream_calls)
  show ?thesis
    unfolding fn_get_irc_configuration_proxy fn_list_namespaces_proxy
      fn_get_schema_details_proxy fn_read_iceberg_catalog_proxy fn_read_tables_proxy calls
    using assms(3,4) by (simp add: upstream_url_def)
qed

text \<open>
  The sample of the claim: workspace \<^verbatim>\<open>ws1\<close>, data item \<^verbatim>\<open>item1.Lakehouse\<close>, schema
  \<^verbatim>\<open>s1\<close>, table \<^verbatim>\<open>t1\<close>, each route with the parameters it documents and no more.
\<close>

theorem upstream_paths_witness:
  "upstream_calls (snd (fn_get_irc_configuration (module_globals env_set)
      (sample_world token_granted upstream_ok) two_param_request)) =
     [''https://onelake.dfs.fabric.microsoft.com/iceberg/v1/config?warehouse=/ws1/item1.Lakehouse'']
   \<and> upstream_calls (snd (fn_list_namespaces (module_globals env_set)
      (sample_world token_granted upstream_ok) two_param_request)) =
     [''https://onelake.dfs.fabric.microsoft.com/iceberg/v1//ws1/item1.Lakehouse/namespaces'']
   \<and> upstream_calls (snd (fn_get_schema_details (module_globals env_set)
      (sample_world token_granted upstream_ok) three_param_request)) =
     [''https://onelake.dfs.fabric.microsoft.com/iceberg/v1//ws1/item1.Lakehouse/namespaces/s1'']
   \<and> upstream_calls (snd (fn_read_iceberg_catalog (module_globals env_set)
      (sample_world token_granted upstream_ok) three_param_request)) =
     [''https://onelake.dfs.fabric.microsoft.com/iceberg/v1//ws1/item1.Lakehouse/namespaces/s1/tables'']
   \<and> upstream_calls (snd (fn_read_tables (module_globals env_set)
      (sample_world token_granted upstream_ok) sample_request)) =
     [''https://onelake.dfs.fabric.microsoft.com/iceberg/v1//ws1/item1.Lakehouse/namespaces/s1/tables/t1'']"
proof -
  have n: "PStr ''tok-1'' \<noteq> PNone" by simp
  have p2: "params two_param_request ''workspace'' = Some ''ws1''"
    "params two_param_request ''dataitem'' = Some ''item1.Lakehouse''"
    by (simp_all add: two_param_request_def)
  have p3: "params three_param_request ''workspace'' = Some ''ws1''"
    "params three_param_request ''dataitem'' = Some ''item1.Lakehouse''"
    and s3: "params three_param_request ''schema'' = Some ''s1''"
    by (simp_all add: three_param_request_def)
  have p4: "params sample_request ''workspace'' = Some ''ws1''"
    "params sample_request ''dataitem'' = Some ''item1.Lakehouse''"
    and s4: "params sample_request ''schema'' = Some ''s1''"
    and t4: "params sample_request ''table'' = Some ''t1''"
    by (simp_all add: sample_request_def)
  from upstream_paths [OF acquire_granted n p2, of upstream_ok]
  have a: "upstream_calls (snd (fn_get_irc_configuration (module_globals env_set)
      (sample_world token_granted upstream_ok) two_param_request)) =
     [''https://onelake.dfs.fabric.microsoft.com/iceberg/v1/config?warehouse=/ws1/item1.Lakehouse'']"
    and b: "upstream_calls (snd (fn_list_namespaces (module_globals env_set)
      (sample_world token_granted upstream_ok) two_param_request)) =
     [''https://onelake.dfs.fabric.microsoft.com/iceberg/v1//ws1/item1.Lakehouse/namespaces'']"
    by simp_all
  from upstream_paths [OF acquire_granted n p3, of upstream_ok] s3
  have c: "upstream_calls (snd (fn_get_schema_details (module_globals env_set)
      (sample_world token_granted upstream_ok) three_param_request)) =
     [''https://onelake.dfs.fabric.microsoft.com/iceberg/v1//ws1/item1.Lakehouse/namespaces/s1'']"
    and d: "upstream_calls (snd (fn_read_iceberg_catalog (module_globals env_set)
      (sample_world token_granted upstream_ok) three_param_request)) =
     [''https://onelake.dfs.fabric.microsoft.com/iceberg/v1//ws1/item1.Lakehouse/namespaces/s1/tables'']"
    by simp_all
  from upstream_paths [OF acquire_granted n p4, of upstream_ok] s4 t4
  have e: "upstream_calls (snd (fn_read_tables (module_globals env_set)
      (sample_world token_granted upstream_ok) sample_request)) =
     [''https://onelake.dfs.fabric.microsoft.com/iceberg/v1//ws1/item1.Lakehouse/namespaces/s1/tables/t1'']"
    by simp
  from a b c d e show ?thesis by blast
qed

section \<open>Translation of the upstream outcome\<close>

text \<open>
  Claim C4, as the code has it. For every route and request for which a token was
  obtained and the GET (or the status check after it) fails with an exception of the
  \<^verbatim>\<open>RequestException\<close> family: when the exception carries no response, the function
  returns 502 with \<^verbatim>\<open>str(e)\<close> as body; when it carries a response whose text can be
  encoded, the function returns that response's status code and text; when it carries
  a response whose text cannot be encoded, the attempt to relay it fails and the
  function falls back to 502 with \<^verbatim>\<open>str(e)\<close>. The two 502 answers are for a
  \<^verbatim>\<open>str(e)\<close> that can be encoded.
\<close>

theorem upstream_failure_translated:
  assumes "fst (acquire_onelake_token g w) = Inr t" and "t \<noteq> PNone"
    and "upstream_step w (upstream_url r req) (request_headers t) = Inl e"
    and "isinstance_RequestException (exn_class e)"
  shows "(exn_response e = None \<and> \<not> has_lone_surrogate (exn_str e) \<longrightarrow>
            fst (app_route r g w req) =
              Inr \<lparr> body = exn_str e, status_code = 502, mimetype = None \<rparr>)
       \<and> (\<forall>resp. exn_response e = Some resp \<and> \<not> has_lone_surrogate (up_text resp) \<longrightarrow>
            fst (app_route r g w req) =
              Inr \<lparr> body = up_text resp, status_code = up_status_code resp, mimetype = None \<rparr>)
       \<and> (\<forall>resp. exn_response e = Some resp \<and> has_lone_surrogate (up_text resp) \<and>
                 \<not> has_lone_surrogate (exn_str e) \<longrightarrow>
            fst (app_route r g w req) =
              Inr \<lparr> body = exn_str e, status_code = 502, mimetype = None \<rparr>)"
proof -
  have run: "fst (app_route r g w req) = fst (translate w (Inl e))"
    unfolding app_route_proxy fst_proxy_token [OF assms(1,2)] assms(3) ..
  have a: "fst (translate w (Inl e)) =
             Inr \<lparr> body = exn_str e, status_code = 502, mimetype = None \<rparr>"
    if "exn_response e = None" "\<not> has_lone_surrogate (exn_str e)"
    using that assms(4) by (simp add: translate_502 relay_attempt_none HttpResponse_ok)
  have b: "fst (translate w (Inl e)) =
             Inr \<lparr> body = up_text resp, status_code = up_status_code resp, mimetype = None \<rparr>"
    if "exn_response e = Some resp" "\<not> has_lone_surrogate (up_text resp)" for resp
    using that assms(4) by (simp add: translate_relay relay_attempt_ok)
  have c: "fst (translate w (Inl e)) =
             Inr \<lparr> body = exn_str e, status_code = 502, mimetype = None \<rparr>"
    if "exn_response e = Some resp" "has_lone_surrogate (up_text resp)"
      "\<not> has_lone_surrogate (exn_str e)" for resp
    using that assms(4) by (simp add: translate_502 relay_attempt_fail HttpResponse_ok)
  from a b c show ?thesis unfolding run by blast
qed

text \<open>
  A refused connection gives 502 with the error text; an upstream 404, raised by the
  status check with the response attached, is relayed as 404 with its body.
\<close>

theorem upstream_failure_translated_witness:
  "fst (app_route Route_list_namespaces (module_globals env_set)
          (sample_world token_granted upstream_refused) two_param_request) =
     Inr \<lparr> body = ''Connection refused'', status_code = 502, mimetype = None \<rparr>
   \<and> fst (app_route Route_list_namespaces (module_globals env_set)
          (sample_world token_granted upstream_not_found) two_param_request) =
     Inr \<lparr> body = ''not found'', status_code = 404, mimetype = None \<rparr>"
proof -
  have n: "PStr ''tok-1'' \<noteq> PNone" by simp
  let ?e1 = "Exn ConnectionError ''Connection refused'' None :: sample_json exn"
  let ?r = "\<lparr> up_status_code = 404, up_reason = ''Not Found'',
              up_url = upstream_url Route_list_namespaces two_param_request,
              up_text = ''not found'',
              up_json = Inl (JSONDecodeError, ''Expecting value'') \<rparr> :: sample_json response"
  let ?e2 = "Exn HTTPError (''404 Client Error: Not Found for url: '' @
               upstream_url Route_list_namespaces two_param_request) (Some ?r) :: sample_json exn"
  have c1: "isinstance_RequestException (exn_class ?e1)" by simp
  have c2: "isinstance_RequestException (exn_class ?e2)" by simp
  note a = upstream_failure_translated [OF acquire_granted n sample_upstream_refused c1]
  note b = upstream_failure_translated [OF acquire_granted n sample_upstream_not_found c2]
  from a have r1: "fst (app_route Route_list_namespaces (module_globals env_set)
          (sample_world token_granted upstream_refused) two_param_request) =
     Inr \<lparr> body = ''Connection refused'', status_code = 502, mimetype = None \<rparr>"
    by (simp del: app_route.simps)
  from b have r2: "fst (app_route Route_list_namespaces (module_globals env_set)
          (sample_world token_granted upstream_not_found) two_param_request) =
     Inr \<lparr> body = ''not found'', status_code = 404, mimetype = None \<rparr>"
    by (simp del: app_route.simps)
  from r1 r2 show ?thesis by (rule conjI)
qed

text \<open>
  Claim C4 as stated has every failure that carries a response relayed with the
  upstream status code and body. Here the upstream answers 404 with a body that
  decodes to a lone surrogate: the status check raises with the response attached,
  the relay response cannot be built, and the function answers 502 with \<^verbatim>\<open>str(e)\<close>.
\<close>

theorem relay_fallback_counterexample:
  "upstream_step (sample_world token_granted upstream_surrogate_not_found)
      (upstream_url Route_list_namespaces two_param_request) (request_headers (PStr ''tok-1'')) =
     Inl (Exn HTTPError
            ''404 Client Error: Not Found for url: https://onelake.dfs.fabric.microsoft.com/iceberg/v1//ws1/item1.Lakehouse/namespaces''
            (Some \<lparr> up_status_code = 404, up_reason = ''Not Found'',
                    up_url = ''https://onelake.dfs.fabric.microsoft.com/iceberg/v1//ws1/item1.Lakehouse/namespaces'',
                    up_text = [CHR 0xED, CHR 0xA0, CHR 0x80],
                    up_json = Inl (JSONDecodeError, ''Expecting value'') \<rparr>))
   \<and> fst (app_route Route_list_namespaces (module_globals env_set)
          (sample_world token_granted upstream_surrogate_not_found) two_param_request) =
     Inr \<lparr> body = ''404 Client Error: Not Found for url: https://onelake.dfs.fabric.microsoft.com/iceberg/v1//ws1/item1.Lakehouse/namespaces'',
            status_code = 502, mimetype = None \<rparr>"
proof -
  have n: "PStr ''tok-1'' \<noteq> PNone" by simp
  let ?url = "''https://onelake.dfs.fabric.microsoft.com/iceberg/v1//ws1/item1.Lakehouse/namespaces''"
  let ?r = "\<lparr> up_status_code = 404, up_reason = ''Not Found'', up_url = ?url,
              up_text = [CHR 0xED, CHR 0xA0, CHR 0x80],
              up_json = Inl (JSONDecodeError, ''Expecting value'') \<rparr> :: sample_json response"
  let ?e = "Exn HTTPError (''404 Client Error: Not Found for url: '' @ ?url) (Some ?r)
              :: sample_json exn"
  have s: "upstream_step (sample_world token_granted upstream_surrogate_not_found)
      (upstream_url Route_list_namespaces two_param_request) (request_headers (PStr ''tok-1'')) =
      Inl ?e"
    unfolding sample_upstream_surrogate_not_found sample_url_namespaces ..
  have c: "isinstance_RequestException (exn_class ?e)" by simp
  have f: "relay_attempt ?e = None"
    by (rule relay_attempt_fail [where resp = ?r]) simp_all
  have m: "\<not> has_lone_surrogate (exn_str ?e)" by simp
  have "fst (app_route Route_list_namespaces (module_globals env_set)
          (sample_world token_granted upstream_surrogate_not_found) two_param_request) =
        HttpResponse (exn_str ?e) 502 None"
    unfolding app_route_proxy fst_proxy_token [OF acquire_granted n] s
    by (rule translate_502 [OF c f])
  also have "\<dots> = Inr \<lparr> body = exn_str ?e, status_code = 502, mimetype = None \<rparr>"
    by (rule HttpResponse_ok [OF m])
  finally have r: "fst (app_route Route_list_namespaces (module_globals env_set)
          (sample_world token_granted upstream_surrogate_not_found) two_param_request) =
     Inr \<lparr> body = ''404 Client Error: Not Found for url: https://onelake.dfs.fabric.microsoft.com/iceberg/v1//ws1/item1.Lakehouse/namespaces'',
            status_code = 502, mimetype = None \<rparr>"
    by simp
  from s r show ?thesis by simp
qed




section \<open>Missing query parameters\<close>

lemma upstream_url_fill_none: "upstream_url r (fill_none req) = upstream_url r req"
proof -
  have "fmt (Some (fmt x)) = fmt x" for x by simp
  then show ?thesis
    by (cases r) (simp_all add: upstream_url_def fill_none_def)
qed

text \<open>
  Claim C7, as the code has it. The functions validate nothing: a request in which a
  parameter is absent is handled exactly as the request in which that parameter is the
  string \<^verbatim>\<open>None\<close>, which is what the f-string writes into the URL. Whether the GET is
  issued depends on the token alone, and when it is, it goes to the URL built from the
  parameters as they are.
\<close>

theorem absent_parameter_interpolated:
  "app_route r g w req = app_route r g w (fill_none req)
   \<and> upstream_calls (snd (app_route r g w req)) =
       (if no_token (fst (acquire_onelake_token g w)) then [] else [upstream_url r req])"
  by (simp add: app_route_proxy upstream_url_fill_none proxy_upstream_calls)

text \<open>A request for the namespaces with no \<^verbatim>\<open>dataitem\<close>.\<close>

theorem absent_parameter_interpolated_witness:
  "app_route Route_list_namespaces (module_globals env_set)
      (sample_world token_granted upstream_ok) partial_request =
   app_route Route_list_namespaces (module_globals env_set)
      (sample_world token_granted upstream_ok) (fill_none partial_request)
   \<and> upstream_calls (snd (app_route Route_list_namespaces (module_globals env_set)
      (sample_world token_granted upstream_ok) partial_request)) =
     [''https://onelake.dfs.fabric.microsoft.com/iceberg/v1//ws1/None/namespaces'']"
proof -
  have u: "upstream_url Route_list_namespaces partial_request =
     ''https://onelake.dfs.fabric.microsoft.com/iceberg/v1//ws1/None/namespaces''"
    by (simp add: upstream_url_def partial_request_def)
  note t = absent_parameter_interpolated [where r = Route_list_namespaces
      and g = "module_globals env_set" and w = "sample_world token_granted upstream_ok"
      and req = partial_request]
  from t have a: "app_route Route_list_namespaces (module_globals env_set)
      (sample_world token_granted upstream_ok) partial_request =
   app_route Route_list_namespaces (module_globals env_set)
      (sample_world token_granted upstream_ok) (fill_none partial_request)"
    by (rule conjunct1)
  from t have "upstream_calls (snd (app_route Route_list_namespaces (module_globals env_set)
      (sample_world token_granted upstream_ok) partial_request)) =
       (if no_token (fst (acquire_onelake_token (module_globals env_set)
              (sample_world token_granted upstream_ok)))
        then [] else [upstream_url Route_list_namespaces partial_request])"
    by (rule conjunct2)
  with sample_token_present [of upstream_ok] u
  have b: "upstream_calls (snd (app_route Route_list_namespaces (module_globals env_set)
      (sample_world token_granted upstream_ok) partial_request)) =
     [''https://onelake.dfs.fabric.microsoft.com/iceberg/v1//ws1/None/namespaces'']"
    by (simp del: app_route.simps)
  from a b show ?thesis by (rule conjI)
qed

text \<open>
  Claim C7 as stated has such a request answered 400 before any network call. A
  request for a table with no parameter at all is sent upstream with \<^verbatim>\<open>None\<close> in every
  place, and the upstream answer, here 200, is returned.
\<close>

theorem absent_parameter_counterexample:
  "params empty_request ''workspace'' = None
   \<and> fst (app_route Route_read_tables (module_globals env_set)
        (sample_world token_granted upstream_ok) empty_request) =
       Inr \<lparr> body = ''[1, 2]'', status_code = 200, mimetype = Some ''application/json'' \<rparr>
   \<and> upstream_calls (snd (app_route Route_read_tables (module_globals env_set)
        (sample_world token_granted upstream_ok) empty_request)) =
       [''https://onelake.dfs.fabric.microsoft.com/iceberg/v1//None/None/namespaces/None/tables/None'']"
proof -
  have n: "PStr ''tok-1'' \<noteq> PNone" by simp
  have a: "params empty_request ''workspace'' = None"
    by (simp add: empty_request_def)
  have b: "fst (app_route Route_read_tables (module_globals env_set)
        (sample_world token_granted upstream_ok) empty_request) =
       Inr \<lparr> body = ''[1, 2]'', status_code = 200, mimetype = Some ''application/json'' \<rparr>"
    unfolding app_route_proxy by (rule sample_ok_response)
  have c: "upstream_calls (snd (app_route Route_read_tables (module_globals env_set)
        (sample_world token_granted upstream_ok) empty_request)) =
       [''https://onelake.dfs.fabric.microsoft.com/iceberg/v1//None/None/namespaces/None/tables/None'']"
    unfolding app_route_proxy proxy_upstream_calls sample_url_empty
    using sample_token_present [of upstream_ok] by simp
  from a b c show ?thesis by blast
qed

section \<open>Exceptions that leave a function\<close>






section \<open>The five functions agree\<close>

lemma json_attempt_cong:
  "json_dumps w1 = json_dumps w2 \<Longrightarrow> json_attempt w1 = json_attempt w2"
  by (rule ext) (auto simp: json_attempt_def split: sum.splits)

lemma translate_cong:
  assumes "json_dumps w1 = json_dumps w2"
  shows "translate w1 outcome = translate w2 outcome"
  unfolding translate_def json_attempt_cong [OF assms] ..

lemma token_step_cong:
  "acquire_onelake_token g1 w1 = acquire_onelake_token g2 w2 \<Longrightarrow>
   token_step g1 w1 = token_step g2 w2"
  by (simp add: token_step_def)

text \<open>
  Claim C9. Take any two of the five routes, each with its own request, configuration
  and world. If the token acquisition has the same outcome in both, the two functions
  build the same URL, the upstream answers alike for that URL, and \<^verbatim>\<open>json.dumps\<close> is
  the same function, then the two functions return the same response (and leave the
  same events).
\<close>

text \<open>
  Claim C9. Take any two of the five routes, each with its own request, configuration
  and world. If the token acquisition has the same outcome in both, the two functions
  build the same URL, the upstream answers alike for that URL, and \<^verbatim>\<open>json.dumps\<close> is
  the same function, then the two functions return the same response (and leave the
  same events).
\<close>

theorem handlers_agree:
  assumes "acquire_onelake_token g1 w1 = acquire_onelake_token g2 w2"
    and "upstream_url r1 req1 = upstream_url r2 req2"
    and "upstream_step w1 (upstream_url r1 req1) = upstream_step w2 (upstream_url r2 req2)"
    and "json_dumps w1 = json_dumps w2"
  shows "app_route r1 g1 w1 req1 = app_route r2 g2 w2 req2"
proof -
  have s: "upstream_step w1 (upstream_url r2 req2) = upstream_step w2 (upstream_url r2 req2)"
    using assms(2,3) by simp
  have t: "translate w1 = translate w2"
    by (rule ext) (rule translate_cong [OF assms(4)])
  show ?thesis
    unfolding app_route_proxy catalog_proxy_def token_step_cong [OF assms(1)] assms(2) s t
    by (rule refl)
qed

text \<open>
  The namespace list of data item \<^verbatim>\<open>item1.Lakehouse/namespaces/s1\<close> and the details of
  schema \<^verbatim>\<open>s1/namespaces\<close> in data item \<^verbatim>\<open>item1.Lakehouse\<close> are the same URL, and the
  two functions answer alike.
\<close>

text \<open>
  The namespace list of data item \<^verbatim>\<open>item1.Lakehouse/namespaces/s1\<close> and the details of
  schema \<^verbatim>\<open>s1/namespaces\<close> in data item \<^verbatim>\<open>item1.Lakehouse\<close> are the same URL, and the
  two functions answer alike.
\<close>

theorem handlers_agree_witness:
  "upstream_url Route_list_namespaces request_namespaces =
     upstream_url Route_get_schema_details request_schema
   \<and> app_route Route_list_namespaces (module_globals env_set)
       (sample_world token_granted upstream_ok) request_namespaces =
     app_route Route_get_schema_details (module_globals env_set)
       (sample_world token_granted upstream_ok) request_schema"
proof -
  have u: "upstream_url Route_list_namespaces request_namespaces =
     upstream_url Route_get_schema_details request_schema"
    by (simp add: upstream_url_def request_namespaces_def request_schema_def)
  have s: "upstream_step (sample_world token_granted upstream_ok)
        (upstream_url Route_list_namespaces request_namespaces) =
      upstream_step (sample_world token_granted upstream_ok)
        (upstream_url Route_get_schema_details request_schema)"
    by (simp only: u)
  from handlers_agree [OF refl u s refl, of "module_globals env_set"] u
  show ?thesis by blast
qed

section \<open>The base URL constant\<close>

lemma acquire_BaseURL:
  "acquire_onelake_token (g \<lparr> BaseURL := b \<rparr>) w = acquire_onelake_token g w"
  by (simp add: acquire_onelake_token_def)

lemma upstream_url_prefix:
  "prefix ''https://onelake.dfs.fabric.microsoft.com/iceberg/v1'' (upstream_url r req)"
  by (cases r) (simp_all add: upstream_url_def)

lemma upstream_url_not_BaseURL:
  "\<not> prefix (BaseURL (module_globals getenv)) (upstream_url r req)"
  by (cases r) (simp_all add: upstream_url_def module_globals_def Let_def)

text \<open>
  Claim C10. No function depends on \<^verbatim>\<open>BaseURL\<close>: with any other value of it the
  result and the events are the same. The constant is
  \<^verbatim>\<open>https://onelake.table.fabric.microsoft.com/\<close>, and every URL a function requests
  starts with \<^verbatim>\<open>https://onelake.dfs.fabric.microsoft.com/iceberg/v1\<close> and does not
  start with the constant.
\<close>

theorem BaseURL_unused:
  "app_route r (g \<lparr> BaseURL := b \<rparr>) w req = app_route r g w req
   \<and> BaseURL (module_globals getenv) = ''https://onelake.table.fabric.microsoft.com/''
   \<and> list_all (\<lambda>u. prefix ''https://onelake.dfs.fabric.microsoft.com/iceberg/v1'' u \<and>
                    \<not> prefix (BaseURL (module_globals getenv)) u)
        (upstream_calls (snd (app_route r g w req)))"
proof -
  have a: "app_route r (g \<lparr> BaseURL := b \<rparr>) w req = app_route r g w req"
    unfolding app_route_proxy catalog_proxy_def token_step_def acquire_BaseURL ..
  have b: "BaseURL (module_globals getenv) = ''https://onelake.table.fabric.microsoft.com/''"
    by (simp add: module_globals_def Let_def)
  have c: "list_all (\<lambda>u. prefix ''https://onelake.dfs.fabric.microsoft.com/iceberg/v1'' u \<and>
                    \<not> prefix (BaseURL (module_globals getenv)) u)
        (upstream_calls (snd (app_route r g w req)))"
    unfolding app_route_proxy proxy_upstream_calls
    using upstream_url_prefix [of r req] upstream_url_not_BaseURL [of getenv r req]
    by (simp del: prefix_code)
  from a b c show ?thesis by blast
qed

text \<open>The configuration request of the sample.\<close>

theorem BaseURL_unused_witness:
  "upstream_calls (snd (app_route Route_get_irc_configuration (module_globals env_set)
      (sample_world token_granted upstream_ok) sample_request)) =
     [''https://onelake.dfs.fabric.microsoft.com/iceberg/v1/config?warehouse=/ws1/item1.Lakehouse'']
   \<and> list_all (\<lambda>u. prefix ''https://onelake.dfs.fabric.microsoft.com/iceberg/v1'' u \<and>
                    \<not> prefix ''https://onelake.table.fabric.microsoft.com/'' u)
        (upstream_calls (snd (app_route Route_get_irc_configuration (module_globals env_set)
           (sample_world token_granted upstream_ok) sample_request)))"
proof -
  have u: "upstream_calls (snd (app_route Route_get_irc_configuration (module_globals env_set)
      (sample_world token_granted upstream_ok) sample_request)) =
     [''https://onelake.dfs.fabric.microsoft.com/iceberg/v1/config?warehouse=/ws1/item1.Lakehouse'']"
    unfolding app_route_proxy proxy_upstream_calls
    using sample_token_present [of upstream_ok]
    by (simp add: upstream_url_def sample_request_def)
  note t = BaseURL_unused [where r = Route_get_irc_configuration
      and g = "module_globals env_set" and w = "sample_world token_granted upstream_ok"
      and req = sample_request and getenv = env_set]
  from t have "list_all (\<lambda>u. prefix ''https://onelake.dfs.fabric.microsoft.com/iceberg/v1'' u \<and>
                    \<not> prefix ''https://onelake.table.fabric.microsoft.com/'' u)
        (upstream_calls (snd (app_route Route_get_irc_configuration (module_globals env_set)
           (sample_world token_granted upstream_ok) sample_request)))"
    by metis
  with u show ?thesis by blast
qed

end
